theory Spec2Isabelle
  imports Complex_Main "HOL-Library.Sublist"
begin

section \<open>JavaScript strings\<close>

text \<open>
  A JavaScript string is a sequence of UTF-16 code units, and \<open>length\<close>, \<open>trim\<close>,
  \<open>toLowerCase\<close> and \<open>includes\<close> work on code units. The model uses \<^typ>\<open>string\<close>
  and reads every \<^typ>\<open>char\<close> as one code unit in the range U+0000 to U+00FF, so
  \<^const>\<open>length\<close> is the \<open>length\<close> property. Strings with code units above U+00FF are
  outside the model.
\<close>

definition isUpperCase :: "char \<Rightarrow> bool" where
  \<comment> \<open>the code units below U+0100 that \<open>toLowerCase\<close> changes: A to Z, and U+00C0 to U+00DE
      without the multiplication sign U+00D7\<close>
  "isUpperCase c =
     (let n = (of_char c :: nat)
      in (65 \<le> n \<and> n \<le> 90) \<or> (192 \<le> n \<and> n \<le> 222 \<and> n \<noteq> 215))"

definition toLowerUnit :: "char \<Rightarrow> char" where
  "toLowerUnit c = (if isUpperCase c then char_of (of_char c + (32::nat)) else c)"

definition toLowerCase :: "string \<Rightarrow> string" where
  "toLowerCase s = map toLowerUnit s"

fun startsWith :: "string \<Rightarrow> string \<Rightarrow> bool" where
  "startsWith s [] = True"
| "startsWith [] (p # ps) = False"
| "startsWith (c # cs) (p # ps) = (c = p \<and> startsWith cs ps)"

fun includes_js :: "string \<Rightarrow> string \<Rightarrow> bool" where
  \<comment> \<open>\<open>s.includes(p)\<close>: \<open>p\<close> occurs in \<open>s\<close> as a contiguous run\<close>
  "includes_js [] p = (p = [])"
| "includes_js (c # cs) p = (startsWith (c # cs) p \<or> includes_js cs p)"

definition isWhiteSpace :: "char \<Rightarrow> bool" where
  \<comment> \<open>white space and line terminators below U+0100: TAB, LF, VT, FF, CR, SP, NBSP\<close>
  "isWhiteSpace c = (of_char c \<in> {9, 10, 11, 12, 13, 32, 160 :: nat})"

definition trimStart :: "string \<Rightarrow> string" where
  "trimStart s = dropWhile isWhiteSpace s"

definition trim :: "string \<Rightarrow> string" where
  "trim s = rev (trimStart (rev (trimStart s)))"

section \<open>The server: error translation\<close>

text \<open>
  A thrown value is an \<open>Error\<close> object; the server reads nothing of it but the
  \<open>message\<close> property.
\<close>

datatype error = Error (message: string)

definition getErrorMessage :: "error \<Rightarrow> string" where
  \<comment> \<open>server.js, lines 31 to 48\<close>
  "getErrorMessage e =
     (let message = toLowerCase (message e)
      in if includes_js message ''404'' \<or> includes_js message ''not found''
           then ''City not found. Please check the spelling.''
         else if includes_js message ''401'' \<or> includes_js message ''unauthorized''
           then ''Weather service authentication failed.''
         else if includes_js message ''timeout''
           then ''Weather service request timed out. Please try again.''
         else if includes_js message ''network'' \<or> includes_js message ''enotfound''
           then ''Unable to connect to weather service.''
         else ''Weather service temporarily unavailable. Please try again.'')"

definition userFacingMessages :: "string list" where
  \<comment> \<open>the five literals \<open>getErrorMessage\<close> returns: not found, authentication failed,
      timed out, unreachable, and the generic one\<close>
  "userFacingMessages =
     [''City not found. Please check the spelling.'',
      ''Weather service authentication failed.'',
      ''Weather service request timed out. Please try again.'',
      ''Unable to connect to weather service.'',
      ''Weather service temporarily unavailable. Please try again.'']"

definition matchesPattern :: "error \<Rightarrow> bool" where
  \<comment> \<open>one of the substrings \<open>getErrorMessage\<close> looks for occurs in the lowercased message\<close>
  "matchesPattern e =
     list_ex (includes_js (toLowerCase (message e)))
       [''404'', ''not found'', ''401'', ''unauthorized'', ''timeout'', ''network'',
        ''enotfound'']"

section \<open>JSON values and numbers\<close>

text \<open>
  The values \<open>JSON.parse\<close> returns. A number is a double, given by its exact value; the
  program reads no number.
\<close>

datatype json =
    JNull
  | JBool bool
  | JNum rat
  | JStr string
  | JArr "json list"
  | JObj "(string \<times> json) list"

text \<open>
  The result of \<open>parseFloat\<close>: a double, given by its exact value, an infinity or NaN.
  The sign of zero is not kept; no comparison of the program depends on it.
  \<open>roundToDouble\<close> is the conversion of a non-negative decimal value to the nearest
  double, ties to the even significand, as the engine of Node computes it: the unit in
  the last place is \<open>2 ^ (e - 52)\<close> for a value in \<open>[2 ^ e, 2 ^ (e + 1))\<close> and
  \<open>2 ^ -1074\<close> for the subnormal values, and a result of \<open>2 ^ 1024\<close> or more is
  infinite.
\<close>

datatype number = NaN | Finite rat | PosInfinity | NegInfinity

function bitLength :: "int \<Rightarrow> nat" where
  \<comment> \<open>the number of binary digits of a positive integer\<close>
  "bitLength n = (if n \<le> 0 then 0 else Suc (bitLength (n div 2)))"
  by pat_completeness auto
termination
  by (relation "measure nat") auto

declare bitLength.simps [simp del]

definition scale2 :: "rat \<Rightarrow> int \<Rightarrow> rat" where
  "scale2 m e = (if 0 \<le> e then m * 2 ^ nat e else m / 2 ^ nat (- e))"

definition floorLog2 :: "rat \<Rightarrow> int" where
  \<comment> \<open>for \<open>x > 0\<close>, the \<open>e\<close> with \<open>2 ^ e \<le> x < 2 ^ (e + 1)\<close>\<close>
  "floorLog2 x =
     (let (p, q) = quotient_of x;
          e = int (bitLength p) - int (bitLength q)
      in if scale2 1 e \<le> x then e else e - 1)"

definition roundHalfEven :: "rat \<Rightarrow> int" where
  "roundHalfEven y =
     (let f = \<lfloor>y\<rfloor>; r = y - of_int f
      in if r < 1 / 2 then f
         else if 1 / 2 < r then f + 1
         else if even f then f else f + 1)"

definition roundToDouble :: "rat \<Rightarrow> number" where
  "roundToDouble x =
     (if x = 0 then Finite 0
      else
        (let ulp = max (floorLog2 x - 52) (- 1074);
             v = scale2 (of_int (roundHalfEven (scale2 x (- ulp)))) ulp
         in if scale2 1 1024 \<le> v then PosInfinity else Finite v))"

fun negate :: "number \<Rightarrow> number" where
  "negate NaN = NaN"
| "negate (Finite a) = Finite (- a)"
| "negate PosInfinity = NegInfinity"
| "negate NegInfinity = PosInfinity"

definition isDigit :: "char \<Rightarrow> bool" where
  "isDigit c = (48 \<le> (of_char c :: nat) \<and> (of_char c :: nat) \<le> 57)"

definition digitsValue :: "string \<Rightarrow> int" where
  "digitsValue ds = foldl (\<lambda>n c. 10 * n + (of_char c - 48)) 0 ds"

definition signOf :: "string \<Rightarrow> bool \<times> string" where
  \<comment> \<open>an optional sign: whether it is a minus, and the rest\<close>
  "signOf s =
     (case s of
        [] \<Rightarrow> (False, [])
      | c # r \<Rightarrow>
          if c = CHR ''-'' then (True, r)
          else if c = CHR ''+'' then (False, r)
          else (False, s))"

definition exponentPart :: "string \<Rightarrow> int" where
  \<comment> \<open>\<open>e\<close> or \<open>E\<close>, an optional sign and digits; an exponent without digits is not read\<close>
  "exponentPart s =
     (case s of
        [] \<Rightarrow> 0
      | c # r \<Rightarrow>
          if c = CHR ''e'' \<or> c = CHR ''E''
          then (let (negative, ds) = signOf r;
                    e = digitsValue (takeWhile isDigit ds)
                in if negative then - e else e)
          else 0)"

definition scale10 :: "rat \<Rightarrow> int \<Rightarrow> rat" where
  "scale10 m e = (if 0 \<le> e then m * 10 ^ nat e else m / 10 ^ nat (- e))"

definition fractionPart :: "string \<Rightarrow> string \<times> string" where
  \<comment> \<open>after the integer digits: the digits behind a decimal point, and what follows them\<close>
  "fractionPart s =
     (case s of
        [] \<Rightarrow> ([], [])
      | c # r \<Rightarrow>
          if c = CHR ''.'' then (takeWhile isDigit r, dropWhile isDigit r) else ([], s))"

definition parseFloat :: "string \<Rightarrow> number" where
  \<comment> \<open>skips leading white space, reads the longest prefix that is a decimal literal and
      rounds its value to a double\<close>
  "parseFloat string =
     (let (negative, unsigned) = signOf (trimStart string)
      in if startsWith unsigned ''Infinity''
         then (if negative then NegInfinity else PosInfinity)
         else
           (let intDigits = takeWhile isDigit unsigned;
                (fracDigits, afterFrac) = fractionPart (dropWhile isDigit unsigned)
            in if intDigits = [] \<and> fracDigits = [] then NaN
               else
                 (let v = roundToDouble
                            (scale10 (of_int (digitsValue (intDigits @ fracDigits)))
                               (exponentPart afterFrac - int (length fracDigits)))
                  in if negative then negate v else v)))"

definition isNaN :: "number \<Rightarrow> bool" where
  "isNaN x = (x = NaN)"

fun ge_number :: "number \<Rightarrow> rat \<Rightarrow> bool" where
  "ge_number NaN b = False"
| "ge_number (Finite a) b = (a \<ge> b)"
| "ge_number PosInfinity b = True"
| "ge_number NegInfinity b = False"

fun le_number :: "number \<Rightarrow> rat \<Rightarrow> bool" where
  "le_number NaN b = False"
| "le_number (Finite a) b = (a \<le> b)"
| "le_number PosInfinity b = False"
| "le_number NegInfinity b = True"

section \<open>The server: validation and upstream requests\<close>

definition isValidCoordinate :: "string \<Rightarrow> string \<Rightarrow> bool" where
  \<comment> \<open>server.js, lines 22 to 28\<close>
  "isValidCoordinate lat lon =
     (let latitude = parseFloat lat;
          longitude = parseFloat lon
      in \<not> isNaN latitude \<and> \<not> isNaN longitude \<and>
         ge_number latitude (- 90) \<and> le_number latitude 90 \<and>
         ge_number longitude (- 180) \<and> le_number longitude 180)"

definition hexDigit :: "nat \<Rightarrow> char" where
  "hexDigit d = (if d < 10 then char_of (48 + d) else char_of (55 + d))"

definition percentByte :: "nat \<Rightarrow> string" where
  "percentByte b = [CHR ''%'', hexDigit (b div 16), hexDigit (b mod 16)]"

definition isUnreserved :: "char \<Rightarrow> bool" where
  \<comment> \<open>letters, digits and \<open>- _ . ! ~ * ' ( )\<close>\<close>
  "isUnreserved c =
     (let n = (of_char c :: nat)
      in (65 \<le> n \<and> n \<le> 90) \<or> (97 \<le> n \<and> n \<le> 122) \<or> (48 \<le> n \<and> n \<le> 57) \<or>
         c \<in> set ''-_.!~*()'' \<or> n = 39)"

definition encodeUnit :: "char \<Rightarrow> string" where
  \<comment> \<open>the UTF-8 bytes of a code unit below U+0100, percent-encoded\<close>
  "encodeUnit c =
     (let n = (of_char c :: nat)
      in if isUnreserved c then [c]
         else if n < 128 then percentByte n
         else percentByte (192 + n div 64) @ percentByte (128 + n mod 64))"

definition encodeURIComponent :: "string \<Rightarrow> string" where
  "encodeURIComponent s = concat (map encodeUnit s)"

fun showNat :: "nat \<Rightarrow> string" where
  \<comment> \<open>a status code inside a template literal: its decimal digits\<close>
  "showNat n =
     (if n < 10 then [char_of (48 + n)] else showNat (n div 10) @ [char_of (48 + n mod 10)])"

declare showNat.simps [simp del]

definition API_BASE_URL :: string where
  "API_BASE_URL = ''https://api.openweathermap.org/data/2.5''"

definition DEFAULT_UNITS :: string where
  "DEFAULT_UNITS = ''metric''"

text \<open>
  A handler answers with a status and an object, which \<open>res.json\<close> serialises.
\<close>

datatype payload =
    Bundle json json  \<comment> \<open>\<open>{ currentWeather, forecast }\<close>\<close>
  | ErrorBody string  \<comment> \<open>\<open>{ error }\<close>\<close>

record response =
  status :: nat
  body :: payload

text \<open>
  What lies outside the program is a parameter of the model: the credential of the
  environment, what the upstream service does with a request for a URL, the built-ins
  \<open>JSON.parse\<close> and \<open>decodeURIComponent\<close> (\<open>None\<close> when they throw), the text that
  \<open>res.json\<close> writes for an object (\<open>JSON.stringify\<close> of it), which of two failed
  upstream calls is rejected first, and whether \<open>express.static('public')\<close> finds a file
  for a path.
\<close>

datatype outcome =
    Responded nat string  \<comment> \<open>the response ended: status code and body\<close>
  | Failed error  \<comment> \<open>the request emitted \<open>error\<close>\<close>
  | TimedOut  \<comment> \<open>no activity for \<open>REQUEST_TIMEOUT\<close> milliseconds\<close>

record world =
  API_KEY :: string
  https_get :: "string \<Rightarrow> outcome"
  JSON_parse :: "string \<Rightarrow> json option"
  decodeURIComponent :: "string \<Rightarrow> string option"
  res_json :: "payload \<Rightarrow> string"
  forecast_rejects_first :: bool
  express_static :: "string \<Rightarrow> bool"

definition makeRequest :: "world \<Rightarrow> string \<Rightarrow> error + json" where
  \<comment> \<open>server.js, lines 51 to 84; the promise settled: \<open>Inr\<close> resolved, \<open>Inl\<close> rejected\<close>
  "makeRequest w url =
     (case https_get w url of
        Responded statusCode data \<Rightarrow>
          if statusCode = 200
          then (case JSON_parse w data of
                  Some jsonData \<Rightarrow> Inr jsonData
                | None \<Rightarrow> Inl (Error ''Invalid JSON response from weather API''))
          else Inl (Error (''Weather API returned status '' @ showNat statusCode @ '': '' @ data))
      | Failed e \<Rightarrow> Inl e
      | TimedOut \<Rightarrow>
          Inl (Error ''Request timeout - weather service took too long to respond''))"

definition Promise_all :: "world \<Rightarrow> error + json \<Rightarrow> error + json \<Rightarrow> error + json \<times> json" where
  \<comment> \<open>resolves with both values, or rejects with the rejection that comes first\<close>
  "Promise_all w p q =
     (case (p, q) of
        (Inr a, Inr b) \<Rightarrow> Inr (a, b)
      | (Inl e, Inr b) \<Rightarrow> Inl e
      | (Inr a, Inl e) \<Rightarrow> Inl e
      | (Inl e, Inl e') \<Rightarrow> Inl (if forecast_rejects_first w then e' else e))"

fun readName :: "json \<Rightarrow> error + json option" where
  \<comment> \<open>\<open>currentWeather.name\<close>: a TypeError on \<open>null\<close>, the last member called \<open>name\<close> of an
      object, \<open>undefined\<close> otherwise\<close>
  "readName JNull =
     Inl (Error (''Cannot read properties of null (reading '' @ [CHR 0x27] @ ''name''
                 @ [CHR 0x27] @ '')''))"
| "readName (JObj members) = Inr (map_of (rev members) ''name'')"
| "readName j = Inr None"

text \<open>
  Both handlers end with the same lines (server.js, lines 112 to 124 and 156 to 168): the
  two requests are started, \<open>Promise.all\<close> is awaited, the name is logged and the pair is
  sent; the \<open>catch\<close> block answers 500 with the translated message. The result is the
  response and the URLs requested upstream.
\<close>

definition fetchBoth :: "world \<Rightarrow> string \<Rightarrow> string \<Rightarrow> response \<times> string list" where
  "fetchBoth w currentWeatherUrl forecastUrl =
     (case Promise_all w (makeRequest w currentWeatherUrl) (makeRequest w forecastUrl) of
        Inl e \<Rightarrow> \<lparr>status = 500, body = ErrorBody (getErrorMessage e)\<rparr>
      | Inr (currentWeather, forecast) \<Rightarrow>
          (case readName currentWeather of
             Inl e \<Rightarrow> \<lparr>status = 500, body = ErrorBody (getErrorMessage e)\<rparr>
           | Inr name \<Rightarrow> \<lparr>status = 200, body = Bundle currentWeather forecast\<rparr>),
      [currentWeatherUrl, forecastUrl])"


definition currentWeatherUrl_city :: "world \<Rightarrow> string \<Rightarrow> string" where
  "currentWeatherUrl_city w sanitizedCity =
     API_BASE_URL @ ''/weather?q='' @ encodeURIComponent sanitizedCity @ ''&appid='' @ API_KEY w
       @ ''&units='' @ DEFAULT_UNITS"

definition forecastUrl_city :: "world \<Rightarrow> string \<Rightarrow> string" where
  "forecastUrl_city w sanitizedCity =
     API_BASE_URL @ ''/forecast?q='' @ encodeURIComponent sanitizedCity @ ''&appid='' @ API_KEY w
       @ ''&units='' @ DEFAULT_UNITS"

definition weatherByCity :: "world \<Rightarrow> string \<Rightarrow> response \<times> string list" where
  \<comment> \<open>server.js, lines 87 to 125: the handler of \<open>/api/weather/:city\<close>, on
      \<open>req.params.city\<close>\<close>
  "weatherByCity w city =
     (if city = [] \<or> length (trim city) = 0
      then (\<lparr>status = 400, body = ErrorBody ''City name is required and cannot be empty.''\<rparr>, [])
      else
        (let sanitizedCity = trim city
         in if length sanitizedCity > 100
            then (\<lparr>status = 400, body = ErrorBody ''City name is too long.''\<rparr>, [])
            else fetchBoth w (currentWeatherUrl_city w sanitizedCity)
                   (forecastUrl_city w sanitizedCity)))"

definition currentWeatherUrl_coords :: "world \<Rightarrow> string \<Rightarrow> string \<Rightarrow> string" where
  "currentWeatherUrl_coords w lat lon =
     API_BASE_URL @ ''/weather?lat='' @ lat @ ''&lon='' @ lon @ ''&appid='' @ API_KEY w
       @ ''&units='' @ DEFAULT_UNITS"

definition forecastUrl_coords :: "world \<Rightarrow> string \<Rightarrow> string \<Rightarrow> string" where
  "forecastUrl_coords w lat lon =
     API_BASE_URL @ ''/forecast?lat='' @ lat @ ''&lon='' @ lon @ ''&appid='' @ API_KEY w
       @ ''&units='' @ DEFAULT_UNITS"

text \<open>
  A request as the router sees it. A query parameter is a string or absent; repeated and
  bracketed parameters, which the query parser turns into arrays and objects, are outside
  the model.
\<close>

datatype verb = GET | HEAD | OtherVerb

record request =
  verb :: verb
  path :: string
  query :: "string \<rightharpoonup> string"

definition weatherByCoords :: "world \<Rightarrow> request \<Rightarrow> response \<times> string list" where
  \<comment> \<open>server.js, lines 128 to 169: the handler of \<open>/api/weather/coords\<close>; \<open>!lat\<close> holds of
      \<open>undefined\<close> and of the empty string\<close>
  "weatherByCoords w req =
     (case (query req ''lat'', query req ''lon'') of
        (Some lat, Some lon) \<Rightarrow>
          if lat = [] \<or> lon = []
          then (\<lparr>status = 400, body = ErrorBody ''Latitude and longitude are required.''\<rparr>, [])
          else if \<not> isValidCoordinate lat lon
          then (\<lparr>status = 400,
                 body = ErrorBody ''Invalid coordinates. Latitude must be -90 to 90, longitude must be -180 to 180.''\<rparr>,
                [])
          else fetchBoth w (currentWeatherUrl_coords w lat lon) (forecastUrl_coords w lat lon)
      | _ \<Rightarrow>
          (\<lparr>status = 400, body = ErrorBody ''Latitude and longitude are required.''\<rparr>, []))"

section \<open>The server: routing\<close>

text \<open>
  Express tries the layers in the order of their registration: the static files, the route
  \<open>/api/weather/:city\<close>, the route \<open>/api/weather/coords\<close>. A route matches the path without
  regard to the case of its letters and with or without one trailing slash; \<open>:city\<close>
  stands for one non-empty segment, which is percent-decoded. The first handler that
  matches answers, and neither handler passes the request on.
\<close>

definition dropTrailingSlash :: "string \<Rightarrow> string" where
  "dropTrailingSlash s = (if s \<noteq> [] \<and> last s = CHR ''/'' then butlast s else s)"

definition matchCityRoute :: "string \<Rightarrow> string option" where
  \<comment> \<open>the text \<open>:city\<close> stands for, when the path matches \<open>/api/weather/:city\<close>\<close>
  "matchCityRoute p =
     (let segment = dropTrailingSlash (drop 13 p)
      in if toLowerCase (take 13 p) = ''/api/weather/'' \<and> segment \<noteq> []
            \<and> CHR ''/'' \<notin> set segment
         then Some segment else None)"

definition matchCoordsRoute :: "string \<Rightarrow> bool" where
  "matchCoordsRoute p = (toLowerCase (dropTrailingSlash p) = ''/api/weather/coords'')"

datatype target =
    StaticFile
  | CityHandler string
  | CoordsHandler
  | BadParam  \<comment> \<open>the segment does not decode: answered 400 by Express\<close>
  | NoRoute  \<comment> \<open>answered 404 by Express\<close>

definition route :: "world \<Rightarrow> request \<Rightarrow> target" where
  "route w r =
     (if verb r = OtherVerb then NoRoute
      else if express_static w (path r) then StaticFile
      else
        (case matchCityRoute (path r) of
           Some segment \<Rightarrow>
             (case decodeURIComponent w segment of
                Some city \<Rightarrow> CityHandler city
              | None \<Rightarrow> BadParam)
         | None \<Rightarrow> if matchCoordsRoute (path r) then CoordsHandler else NoRoute))"

definition app :: "world \<Rightarrow> request \<Rightarrow> (response \<times> string list) option" where
  \<comment> \<open>what a handler of the program answers, and the upstream URLs it requested; \<open>None\<close>
      when Express answers by itself\<close>
  "app w r =
     (case route w r of
        CityHandler city \<Rightarrow> Some (weatherByCity w city)
      | CoordsHandler \<Rightarrow> Some (weatherByCoords w r)
      | _ \<Rightarrow> None)"

section \<open>The client: search history\<close>

text \<open>
  The history is the item \<open>weatherHistory\<close> of \<open>localStorage\<close>, a text. The client reads it
  only as \<open>JSON.parse(localStorage.getItem('weatherHistory') || '[]')\<close> and writes it only
  as \<open>JSON.stringify\<close> of an array of strings, so the model keeps of a stored text what
  these two observe: whether it is empty, whether it is well-formed JSON, and the value
  it denotes when it is. \<open>JSON.parse\<close> returns the value that \<open>JSON.stringify\<close> was given,
  for every array of strings.
\<close>

datatype item =
    EmptyText  \<comment> \<open>the empty string, which is falsy and not JSON\<close>
  | Malformed  \<comment> \<open>a non-empty text that is not well-formed JSON\<close>
  | Wellformed json  \<comment> \<open>a text that is well-formed JSON, and its value\<close>

type_synonym storage = "item option"  \<comment> \<open>\<open>None\<close>: the key is absent, \<open>getItem\<close> gives \<open>null\<close>\<close>

datatype exception = SyntaxError | TypeError

definition MAX_HISTORY_ITEMS :: nat where
  "MAX_HISTORY_ITEMS = 10"

fun JSON_parse_item :: "item \<Rightarrow> exception + json" where
  "JSON_parse_item (Wellformed j) = Inr j"
| "JSON_parse_item Malformed = Inl SyntaxError"
| "JSON_parse_item EmptyText = Inl SyntaxError"

definition JSON_stringify :: "json \<Rightarrow> item" where
  "JSON_stringify j = Wellformed j"

fun getItemOrDefault :: "storage \<Rightarrow> item" where
  \<comment> \<open>\<open>localStorage.getItem('weatherHistory') || '[]'\<close>\<close>
  "getItemOrDefault None = Wellformed (JArr [])"
| "getItemOrDefault (Some EmptyText) = Wellformed (JArr [])"
| "getItemOrDefault (Some t) = t"

fun iterate :: "json \<Rightarrow> exception + json list" where
  \<comment> \<open>\<open>for (const city of history)\<close>: the elements of an array, the characters of a
      string; nothing else that JSON denotes is iterable\<close>
  "iterate (JArr xs) = Inr xs"
| "iterate (JStr s) = Inr (map (\<lambda>c. JStr [c]) s)"
| "iterate j = Inl TypeError"

definition renderHistory :: "storage \<Rightarrow> exception + json list" where
  \<comment> \<open>script.js (lines 241 to 258 of the source): the values it makes a button for, in
      order; there is no \<open>try\<close> around the parse\<close>
  "renderHistory localStorage =
     (case JSON_parse_item (getItemOrDefault localStorage) of
        Inl e \<Rightarrow> Inl e
      | Inr history \<Rightarrow> iterate history)"

fun toLowerCase_of :: "json \<Rightarrow> exception + string" where
  \<comment> \<open>\<open>existingCity.toLowerCase()\<close>: only a string has the method\<close>
  "toLowerCase_of (JStr s) = Inr (toLowerCase s)"
| "toLowerCase_of j = Inl TypeError"

fun filterOut :: "string \<Rightarrow> json list \<Rightarrow> exception + json list" where
  \<comment> \<open>\<open>filter(existingCity => existingCity.toLowerCase() !== city.toLowerCase())\<close>\<close>
  "filterOut city [] = Inr []"
| "filterOut city (existingCity # rest) =
     (case toLowerCase_of existingCity of
        Inl e \<Rightarrow> Inl e
      | Inr lowered \<Rightarrow>
          (case filterOut city rest of
             Inl e \<Rightarrow> Inl e
           | Inr kept \<Rightarrow>
               Inr (if lowered \<noteq> toLowerCase city then existingCity # kept else kept)))"

fun filter_history :: "string \<Rightarrow> json \<Rightarrow> exception + json list" where
  \<comment> \<open>\<open>history.filter(...)\<close>: only an array has the method\<close>
  "filter_history city (JArr xs) = filterOut city xs"
| "filter_history city j = Inl TypeError"

definition saveCityToHistory :: "string \<Rightarrow> storage \<Rightarrow> exception + storage" where
  \<comment> \<open>lines 261 to 275: the new storage, or the exception thrown before anything was
      stored\<close>
  "saveCityToHistory city localStorage =
     (case JSON_parse_item (getItemOrDefault localStorage) of
        Inl e \<Rightarrow> Inl e
      | Inr history \<Rightarrow>
          (case filter_history city history of
             Inl e \<Rightarrow> Inl e
           | Inr kept \<Rightarrow>
               (let history = JStr city # kept;
                    history = (if length history > MAX_HISTORY_ITEMS
                               then take MAX_HISTORY_ITEMS history else history);
                    localStorage' = Some (JSON_stringify (JArr history))
                in case renderHistory localStorage' of
                     Inl e \<Rightarrow> Inl e
                   | Inr rendered \<Rightarrow> Inr localStorage')))"

definition deleteCity :: "string \<Rightarrow> storage \<Rightarrow> storage \<times> string option" where
  \<comment> \<open>lines 360 to 378: the storage afterwards, and the text of the alert when the
      \<open>catch\<close> block ran\<close>
  "deleteCity cityName localStorage =
     (case JSON_parse_item (getItemOrDefault localStorage) of
        Inl e \<Rightarrow> (localStorage, Some ''Failed to delete city. Please try again.'')
      | Inr history \<Rightarrow>
          (case filter_history cityName history of
             Inl e \<Rightarrow> (localStorage, Some ''Failed to delete city. Please try again.'')
           | Inr kept \<Rightarrow>
               (let localStorage' = Some (JSON_stringify (JArr kept))
                in case renderHistory localStorage' of
                     Inl e \<Rightarrow> (localStorage', Some ''Failed to delete city. Please try again.'')
                   | Inr rendered \<Rightarrow> (localStorage', None))))"

fun addAll :: "string list \<Rightarrow> storage \<Rightarrow> exception + storage" where
  \<comment> \<open>\<open>saveCityToHistory\<close> called for each name in turn\<close>
  "addAll [] localStorage = Inr localStorage"
| "addAll (city # cities) localStorage =
     (case saveCityToHistory city localStorage of
        Inl e \<Rightarrow> Inl e
      | Inr localStorage' \<Rightarrow> addAll cities localStorage')"

section \<open>The history list of the specification\<close>

text \<open>
  The specification speaks of the history as a list of names. \<open>historyOf\<close> reads that
  list off the storage, when the storage holds one; \<open>stored\<close> is the storage that holds a
  given list. \<open>add_spec\<close> and \<open>remove_spec\<close> follow the specification's words for \<open>add\<close>
  and \<open>remove\<close>, and \<open>HistoryList\<close> is its invariant: at most ten entries, no two equal
  without regard to case.
\<close>

fun strings :: "json list \<Rightarrow> string list option" where
  "strings [] = Some []"
| "strings (JStr s # xs) = (case strings xs of Some ss \<Rightarrow> Some (s # ss) | None \<Rightarrow> None)"
| "strings (j # xs) = None"

definition historyOf :: "storage \<Rightarrow> string list option" where
  "historyOf localStorage =
     (case getItemOrDefault localStorage of
        Wellformed (JArr xs) \<Rightarrow> strings xs
      | _ \<Rightarrow> None)"

definition stored :: "string list \<Rightarrow> storage" where
  "stored h = Some (Wellformed (JArr (map JStr h)))"

definition add_spec :: "string \<Rightarrow> string list \<Rightarrow> string list" where
  "add_spec name h =
     take MAX_HISTORY_ITEMS (name # filter (\<lambda>e. toLowerCase e \<noteq> toLowerCase name) h)"

definition remove_spec :: "string \<Rightarrow> string list \<Rightarrow> string list" where
  "remove_spec name h = filter (\<lambda>e. toLowerCase e \<noteq> toLowerCase name) h"

definition HistoryList :: "string list \<Rightarrow> bool" where
  "HistoryList h = (length h \<le> MAX_HISTORY_ITEMS \<and> distinct (map toLowerCase h))"

section \<open>Fixtures\<close>

text \<open>
  A stub of the world for the concrete cases: every upstream request is answered 200,
  with \<open>{}\<close> for the current conditions and \<open>[]\<close> for the forecast, no static file
  exists, and a path segment decodes to itself. In \<open>forecastDown\<close> the forecast request
  times out. \<open>coordsRequest\<close> is the request that \<open>fetchWeatherByCoords\<close> of the client
  sends, and \<open>blankRequest\<close> asks for the city whose name is one space.

  The built-ins of the stub are tabulated at the texts and objects of the concrete cases,
  with what Node computes there. \<open>bigIdBody\<close> is the text
  \<open>{"id":12345678901234567890}\<close>: \<open>JSON.parse\<close> reads the number as the nearest double,
  12345678901234567168, which \<open>JSON.stringify\<close> writes as 12345678901234567000. In
  \<open>bigIdWorld\<close> the upstream answers the request for the current conditions with that
  text, in \<open>nullWorld\<close> with the text \<open>null\<close>.
\<close>

definition quoted :: "string \<Rightarrow> string" where
  \<comment> \<open>the text between double quotes\<close>
  "quoted s = [CHR 0x22] @ s @ [CHR 0x22]"

definition bigIdBody :: string where
  "bigIdBody = ''{'' @ quoted ''id'' @ '':12345678901234567890}''"

fun stubJson :: "payload \<Rightarrow> string" where
  \<comment> \<open>an error message is written as it is: no message of the program has a character
      that \<open>JSON.stringify\<close> escapes; an object not listed here is not tabulated\<close>
  "stubJson (ErrorBody m) = ''{'' @ quoted ''error'' @ '':'' @ quoted m @ ''}''"
| "stubJson (Bundle currentWeather forecast) =
     (if currentWeather = JObj [] \<and> forecast = JArr []
      then ''{'' @ quoted ''currentWeather'' @ '':{},'' @ quoted ''forecast'' @ '':[]}''
      else if currentWeather = JObj [(''id'', JNum 12345678901234567168)] \<and> forecast = JArr []
      then ''{'' @ quoted ''currentWeather'' @ '':{'' @ quoted ''id''
             @ '':12345678901234567000},'' @ quoted ''forecast'' @ '':[]}''
      else [])"

definition stubWorld :: world where
  "stubWorld =
     \<lparr>API_KEY = ''KEY'',
      https_get = (\<lambda>url. if includes_js url ''/forecast?'' then Responded 200 ''[]''
                          else Responded 200 ''{}''),
      JSON_parse = (\<lambda>s. if s = ''{}'' then Some (JObj []) else if s = ''[]'' then Some (JArr [])
                          else if s = ''null'' then Some JNull
                          else if s = bigIdBody
                          then Some (JObj [(''id'', JNum 12345678901234567168)])
                          else None),
      decodeURIComponent = Some,
      res_json = stubJson,
      forecast_rejects_first = False,
      express_static = (\<lambda>p. False)\<rparr>"

definition forecastDown :: world where
  "forecastDown =
     stubWorld\<lparr>https_get := (\<lambda>url. if includes_js url ''/forecast?'' then TimedOut
                                   else Responded 200 ''{}'')\<rparr>"



definition blankWorld :: world where
  \<comment> \<open>the stub, decoding the segment \<open>%20\<close> to a space\<close>
  "blankWorld =
     stubWorld\<lparr>decodeURIComponent := (\<lambda>s. if s = ''%20'' then Some '' '' else Some s)\<rparr>"

definition blankRequest :: request where
  "blankRequest = \<lparr>verb = GET, path = ''/api/weather/%20'', query = Map.empty\<rparr>"

definition coordsRequest :: "string \<Rightarrow> string \<Rightarrow> request" where
  "coordsRequest lat lon =
     \<lparr>verb = GET, path = ''/api/weather/coords'', query = [''lat'' \<mapsto> lat, ''lon'' \<mapsto> lon]\<rparr>"

section \<open>Error translation is total\<close>

text \<open>
  Claim C6. \<open>getErrorMessage\<close> is a function of the error's message alone, so it is
  deterministic and has no effect. For every error it returns one of the five
  user-facing messages, which are pairwise different, so the category is unique; and
  when none of the substrings it looks for occurs in the lowercased message, it returns
  the generic "temporarily unavailable" message.
\<close>

theorem getErrorMessage_total:
  "getErrorMessage e \<in> set userFacingMessages
   \<and> distinct userFacingMessages
   \<and> (\<not> matchesPattern e \<longrightarrow>
        getErrorMessage e = ''Weather service temporarily unavailable. Please try again.'')"
  by (simp add: getErrorMessage_def matchesPattern_def userFacingMessages_def Let_def)

theorem getErrorMessage_total_witness:
  "\<not> matchesPattern (Error ''socket hang up'')
   \<and> getErrorMessage (Error ''socket hang up'')
       = ''Weather service temporarily unavailable. Please try again.''
   \<and> getErrorMessage (Error ''socket hang up'') \<in> set userFacingMessages"
proof -
  have no: "\<not> matchesPattern (Error ''socket hang up'')"
    by code_simp
  with getErrorMessage_total [of "Error ''socket hang up''"] show ?thesis
    by blast
qed

section \<open>Lookups on the server\<close>

lemma Promise_all_Inl:
  assumes "isl p \<or> isl q"
  shows "\<exists>e. (p = Inl e \<or> q = Inl e) \<and> Promise_all w p q = Inl e"
  using assms by (cases p; cases q) (auto simp: Promise_all_def)


lemma fetchBoth_calls: "snd (fetchBoth w cur fc) = [cur, fc]"
  by (simp add: fetchBoth_def)

lemma fetchBoth_status: "status (fst (fetchBoth w cur fc)) \<in> {200, 500}"
  by (auto simp: fetchBoth_def split: sum.splits)

lemma fetchBoth_failure:
  assumes "isl (makeRequest w cur) \<or> isl (makeRequest w fc)"
  shows "\<exists>e. (makeRequest w cur = Inl e \<or> makeRequest w fc = Inl e)
           \<and> fetchBoth w cur fc
               = (\<lparr>status = 500, body = ErrorBody (getErrorMessage e)\<rparr>, [cur, fc])"
proof -
  from Promise_all_Inl [OF assms, of w] obtain e
    where "makeRequest w cur = Inl e \<or> makeRequest w fc = Inl e"
      and "Promise_all w (makeRequest w cur) (makeRequest w fc) = Inl e"
    by blast
  then show ?thesis
    by (auto simp: fetchBoth_def)
qed



lemma weatherByCity_valid:
  assumes "0 < length (trim city)" and "length (trim city) \<le> 100"
  shows "weatherByCity w city
         = fetchBoth w (currentWeatherUrl_city w (trim city)) (forecastUrl_city w (trim city))"
proof -
  from assms(1) have "city \<noteq> []"
    by (auto simp: trim_def trimStart_def)
  with assms show ?thesis
    by (simp add: weatherByCity_def Let_def)
qed

lemma weatherByCoords_valid:
  assumes "query req ''lat'' = Some lat" and "query req ''lon'' = Some lon"
    and "lat \<noteq> []" and "lon \<noteq> []" and "isValidCoordinate lat lon"
  shows "weatherByCoords w req
         = fetchBoth w (currentWeatherUrl_coords w lat lon) (forecastUrl_coords w lat lon)"
  using assms by (simp add: weatherByCoords_def)

text \<open>
  The coordinate handler, taken by itself, answers 400 and requests nothing when a
  coordinate is absent or empty or when \<open>isValidCoordinate\<close> fails. \<open>parseFloat\<close> reads a
  numeric prefix, so a value such as \<open>12abc\<close> passes as the number 12.
\<close>

lemma weatherByCoords_validates:
  assumes "query req ''lat'' = None \<or> query req ''lat'' = Some []
           \<or> query req ''lon'' = None \<or> query req ''lon'' = Some []
           \<or> (\<exists>lat lon. query req ''lat'' = Some lat \<and> query req ''lon'' = Some lon
                \<and> \<not> isValidCoordinate lat lon)"
  shows "status (fst (weatherByCoords w req)) = 400 \<and> snd (weatherByCoords w req) = []"
  using assms by (auto simp: weatherByCoords_def split: option.splits)

lemma isValidCoordinate_numeric_prefix:
  "parseFloat ''12abc'' = Finite 12 \<and> isValidCoordinate ''12abc'' ''10''"
  by code_simp

text \<open>
  A latitude written a little above 90 is the double 90 and passes; one written further
  above does not.
\<close>

lemma isValidCoordinate_rounds:
  "parseFloat ''90.00000000000000001'' = Finite 90
   \<and> isValidCoordinate ''90.00000000000000001'' ''10''
   \<and> \<not> isValidCoordinate ''90.0000000000001'' ''10''"
  by code_simp

text \<open>
  Claim C5. For every name whose trimmed length is 0 or greater than 100, the city
  handler answers 400 with an error message and requests nothing upstream; so does the
  application on every request that is routed to the city handler with such a name.
\<close>

theorem weatherByCity_rejects_name:
  assumes "length (trim city) = 0 \<or> length (trim city) > 100"
  shows "status (fst (weatherByCity w city)) = 400
         \<and> (\<exists>m. body (fst (weatherByCity w city)) = ErrorBody m)
         \<and> snd (weatherByCity w city) = []
         \<and> (route w r = CityHandler city \<longrightarrow>
              (\<exists>resp. app w r = Some (resp, []) \<and> status resp = 400))"
proof -
  from assms have 1: "status (fst (weatherByCity w city)) = 400
         \<and> (\<exists>m. body (fst (weatherByCity w city)) = ErrorBody m)
         \<and> snd (weatherByCity w city) = []"
    by (auto simp: weatherByCity_def Let_def)
  have "\<exists>resp. app w r = Some (resp, []) \<and> status resp = 400"
    if "route w r = CityHandler city"
  proof -
    from that have "app w r = Some (weatherByCity w city)"
      by (simp add: app_def)
    with 1 have "app w r = Some (fst (weatherByCity w city), [])
                 \<and> status (fst (weatherByCity w city)) = 400"
      by (simp add: prod_eq_iff)
    then show ?thesis by blast
  qed
  with 1 show ?thesis by blast
qed

theorem weatherByCity_rejects_name_witness:
  "length (trim ''   '') = 0
   \<and> status (fst (weatherByCity stubWorld ''   '')) = 400
   \<and> snd (weatherByCity stubWorld ''   '') = []
   \<and> length (trim (replicate 101 CHR ''a'')) > 100
   \<and> status (fst (weatherByCity stubWorld (replicate 101 CHR ''a''))) = 400
   \<and> snd (weatherByCity stubWorld (replicate 101 CHR ''a'')) = []
   \<and> route blankWorld blankRequest = CityHandler '' ''
   \<and> length (trim '' '') = 0
   \<and> (\<exists>resp. app blankWorld blankRequest = Some (resp, []) \<and> status resp = 400)"
proof -
  have a: "length (trim ''   '') = 0"
    by code_simp
  have b: "length (trim (replicate 101 CHR ''a'')) > 100"
    by code_simp
  have c: "route blankWorld blankRequest = CityHandler '' ''"
    by code_simp
  have d: "length (trim '' '') = 0"
    by code_simp
  from a b c d weatherByCity_rejects_name [of "''   ''" stubWorld]
    weatherByCity_rejects_name [of "replicate 101 CHR ''a''" stubWorld]
    weatherByCity_rejects_name [of "'' ''" blankWorld blankRequest]
  show ?thesis by blast
qed

text \<open>
  Claim C4. In a lookup by name and in a lookup by coordinates, once the input has
  passed validation: if the request for the current conditions or the request for the
  forecast is rejected, whichever of the two, the handler answers 500 with the
  translation of one of the rejections. The body is an error message and never a bundle,
  so no result of the call that succeeded is returned.
\<close>

theorem lookup_all_or_nothing:
  "(0 < length (trim city) \<and> length (trim city) \<le> 100
      \<and> (isl (makeRequest w (currentWeatherUrl_city w (trim city)))
          \<or> isl (makeRequest w (forecastUrl_city w (trim city))))
     \<longrightarrow> (\<exists>e. (makeRequest w (currentWeatherUrl_city w (trim city)) = Inl e
                \<or> makeRequest w (forecastUrl_city w (trim city)) = Inl e)
              \<and> fst (weatherByCity w city)
                  = \<lparr>status = 500, body = ErrorBody (getErrorMessage e)\<rparr>))
   \<and> (query req ''lat'' = Some lat \<and> query req ''lon'' = Some lon \<and> lat \<noteq> [] \<and> lon \<noteq> []
      \<and> isValidCoordinate lat lon
      \<and> (isl (makeRequest w (currentWeatherUrl_coords w lat lon))
          \<or> isl (makeRequest w (forecastUrl_coords w lat lon)))
     \<longrightarrow> (\<exists>e. (makeRequest w (currentWeatherUrl_coords w lat lon) = Inl e
                \<or> makeRequest w (forecastUrl_coords w lat lon) = Inl e)
              \<and> fst (weatherByCoords w req)
                  = \<lparr>status = 500, body = ErrorBody (getErrorMessage e)\<rparr>))"
proof (intro conjI impI)
  assume a: "0 < length (trim city) \<and> length (trim city) \<le> 100
      \<and> (isl (makeRequest w (currentWeatherUrl_city w (trim city)))
          \<or> isl (makeRequest w (forecastUrl_city w (trim city))))"
  then have "weatherByCity w city
    = fetchBoth w (currentWeatherUrl_city w (trim city)) (forecastUrl_city w (trim city))"
    by (simp add: weatherByCity_valid)
  moreover from a fetchBoth_failure
  obtain e where "makeRequest w (currentWeatherUrl_city w (trim city)) = Inl e
                \<or> makeRequest w (forecastUrl_city w (trim city)) = Inl e"
    and "fetchBoth w (currentWeatherUrl_city w (trim city)) (forecastUrl_city w (trim city))
         = (\<lparr>status = 500, body = ErrorBody (getErrorMessage e)\<rparr>,
            [currentWeatherUrl_city w (trim city), forecastUrl_city w (trim city)])"
    by blast
  ultimately show "\<exists>e. (makeRequest w (currentWeatherUrl_city w (trim city)) = Inl e
                \<or> makeRequest w (forecastUrl_city w (trim city)) = Inl e)
              \<and> fst (weatherByCity w city)
                  = \<lparr>status = 500, body = ErrorBody (getErrorMessage e)\<rparr>"
    by auto
next
  assume a: "query req ''lat'' = Some lat \<and> query req ''lon'' = Some lon \<and> lat \<noteq> [] \<and> lon \<noteq> []
      \<and> isValidCoordinate lat lon
      \<and> (isl (makeRequest w (currentWeatherUrl_coords w lat lon))
          \<or> isl (makeRequest w (forecastUrl_coords w lat lon)))"
  then have "weatherByCoords w req
    = fetchBoth w (currentWeatherUrl_coords w lat lon) (forecastUrl_coords w lat lon)"
    by (simp add: weatherByCoords_valid)
  moreover from a fetchBoth_failure
  obtain e where "makeRequest w (currentWeatherUrl_coords w lat lon) = Inl e
                \<or> makeRequest w (forecastUrl_coords w lat lon) = Inl e"
    and "fetchBoth w (currentWeatherUrl_coords w lat lon) (forecastUrl_coords w lat lon)
         = (\<lparr>status = 500, body = ErrorBody (getErrorMessage e)\<rparr>,
            [currentWeatherUrl_coords w lat lon, forecastUrl_coords w lat lon])"
    by blast
  ultimately show "\<exists>e. (makeRequest w (currentWeatherUrl_coords w lat lon) = Inl e
                \<or> makeRequest w (forecastUrl_coords w lat lon) = Inl e)
              \<and> fst (weatherByCoords w req)
                  = \<lparr>status = 500, body = ErrorBody (getErrorMessage e)\<rparr>"
    by auto
qed

theorem lookup_all_or_nothing_witness:
  "0 < length (trim ''London'') \<and> length (trim ''London'') \<le> 100
   \<and> isl (makeRequest forecastDown (forecastUrl_city forecastDown (trim ''London'')))
   \<and> fst (weatherByCity forecastDown ''London'')
       = \<lparr>status = 500, body = ErrorBody ''Weather service request timed out. Please try again.''\<rparr>
   \<and> query (coordsRequest ''51.5'' ''-0.12'') ''lat'' = Some ''51.5''
   \<and> query (coordsRequest ''51.5'' ''-0.12'') ''lon'' = Some ''-0.12''
   \<and> isValidCoordinate ''51.5'' ''-0.12''
   \<and> isl (makeRequest forecastDown (forecastUrl_coords forecastDown ''51.5'' ''-0.12''))
   \<and> fst (weatherByCoords forecastDown (coordsRequest ''51.5'' ''-0.12''))
       = \<lparr>status = 500, body = ErrorBody ''Weather service request timed out. Please try again.''\<rparr>"
proof -
  let ?t = "Error ''Request timeout - weather service took too long to respond''"
  have len: "0 < length (trim ''London'') \<and> length (trim ''London'') \<le> 100"
    by code_simp
  have c1: "makeRequest forecastDown (currentWeatherUrl_city forecastDown (trim ''London''))
            = Inr (JObj [])"
    by code_simp
  have f1: "makeRequest forecastDown (forecastUrl_city forecastDown (trim ''London'')) = Inl ?t"
    by code_simp
  have q: "query (coordsRequest ''51.5'' ''-0.12'') ''lat'' = Some ''51.5''
           \<and> query (coordsRequest ''51.5'' ''-0.12'') ''lon'' = Some ''-0.12''"
    by (simp add: coordsRequest_def)
  have v: "isValidCoordinate ''51.5'' ''-0.12''"
    by code_simp
  have c2: "makeRequest forecastDown (currentWeatherUrl_coords forecastDown ''51.5'' ''-0.12'')
            = Inr (JObj [])"
    by code_simp
  have f2: "makeRequest forecastDown (forecastUrl_coords forecastDown ''51.5'' ''-0.12'') = Inl ?t"
    by code_simp
  have g: "getErrorMessage ?t = ''Weather service request timed out. Please try again.''"
    by code_simp
  from lookup_all_or_nothing
    [of "''London''" forecastDown "coordsRequest ''51.5'' ''-0.12''" "''51.5''" "''-0.12''"]
    len c1 f1 q v c2 f2
  have "fst (weatherByCity forecastDown ''London'')
          = \<lparr>status = 500, body = ErrorBody (getErrorMessage ?t)\<rparr>
        \<and> fst (weatherByCoords forecastDown (coordsRequest ''51.5'' ''-0.12''))
          = \<lparr>status = 500, body = ErrorBody (getErrorMessage ?t)\<rparr>"
    by auto
  with len f1 f2 q v g show ?thesis
    by simp
qed


lemma roundToDouble_bigId: "roundToDouble 12345678901234567890 = Finite 12345678901234567168"
  by code_simp




section \<open>Routing\<close>

lemma dropTrailingSlash_drop: "dropTrailingSlash (drop n p) = drop n (dropTrailingSlash p)"
proof (cases "p \<noteq> [] \<and> last p = CHR ''/''")
  case True
  then show ?thesis
    by (cases "n < length p") (simp_all add: dropTrailingSlash_def drop_butlast)
next
  case False
  then show ?thesis
    by (cases "n < length p") (auto simp: dropTrailingSlash_def)
qed

lemma take_dropTrailingSlash:
  "n \<le> length (dropTrailingSlash p) \<Longrightarrow> take n (dropTrailingSlash p) = take n p"
proof (cases "p \<noteq> [] \<and> last p = CHR ''/''")
  case True
  assume "n \<le> length (dropTrailingSlash p)"
  with True have "n \<le> length p - 1"
    by (simp add: dropTrailingSlash_def)
  moreover from True have "0 < length p"
    by simp
  ultimately have "n < length p"
    by arith
  then have "take n (butlast p) = take n p"
    by (rule take_butlast)
  with True show ?thesis
    by (simp add: dropTrailingSlash_def)
next
  case False
  then show ?thesis
    by (auto simp: dropTrailingSlash_def)
qed

lemma toLowerUnit_slash: "toLowerUnit c = CHR ''/'' \<longleftrightarrow> c = CHR ''/''"
proof (cases "isUpperCase c")
  case True
  let ?n = "(of_char c :: nat) + 32"
  from True have lo: "97 \<le> ?n" and hi: "?n < 256"
    by (auto simp: isUpperCase_def Let_def)
  have "char_of ?n \<noteq> CHR ''/''"
  proof
    assume "char_of ?n = CHR ''/''"
    then have "(of_char (char_of ?n) :: nat) = of_char CHR ''/''"
      by (rule arg_cong)
    with lo hi show False
      by simp
  qed
  moreover from True have "c \<noteq> CHR ''/''"
    by (auto simp: isUpperCase_def)
  ultimately show ?thesis using True
    by (simp add: toLowerUnit_def)
next
  case False
  then show ?thesis by (simp add: toLowerUnit_def)
qed

text \<open>
  Every path that the route \<open>/api/weather/coords\<close> matches is matched by the route
  \<open>/api/weather/:city\<close>, which is registered before it.
\<close>

lemma matchCoordsRoute_matchCityRoute:
  assumes "matchCoordsRoute p"
  shows "matchCityRoute p = Some (drop 13 (dropTrailingSlash p))"
proof -
  let ?q = "dropTrailingSlash p"
  from assms have q: "toLowerCase ?q = ''/api/weather/coords''"
    by (simp add: matchCoordsRoute_def)
  then have "length (toLowerCase ?q) = 19"
    by simp
  then have len: "length ?q = 19"
    by (simp add: toLowerCase_def)
  from q have "take 13 (toLowerCase ?q) = ''/api/weather/''"
    by simp
  then have "toLowerCase (take 13 ?q) = ''/api/weather/''"
    by (simp add: toLowerCase_def take_map)
  with len have prefix: "toLowerCase (take 13 p) = ''/api/weather/''"
    by (simp add: take_dropTrailingSlash)
  from q have "drop 13 (toLowerCase ?q) = ''coords''"
    by simp
  then have seg: "toLowerCase (drop 13 ?q) = ''coords''"
    by (simp add: toLowerCase_def drop_map)
  from len have nonempty: "drop 13 ?q \<noteq> []"
    by simp
  have noslash: "CHR ''/'' \<notin> set (drop 13 ?q)"
  proof
    assume "CHR ''/'' \<in> set (drop 13 ?q)"
    then have "toLowerUnit CHR ''/'' \<in> set (toLowerCase (drop 13 ?q))"
      unfolding toLowerCase_def by simp
    with seg show False
      by (simp add: toLowerUnit_slash [THEN iffD2])
  qed
  from prefix nonempty noslash show ?thesis
    by (simp add: matchCityRoute_def dropTrailingSlash_drop Let_def)
qed

lemma matchCityRoute_coords: "matchCityRoute ''/api/weather/coords'' = Some ''coords''"
  by code_simp

text \<open>
  Claim C2. No request is dispatched to the coordinate handler. A GET or HEAD request
  whose path is \<open>/api/weather/coords\<close>, for which no static file exists, is dispatched
  to the city handler with \<open>city = "coords"\<close> (the segment \<open>coords\<close> decodes to itself),
  and the application answers what the city handler answers for that name.
\<close>

theorem coords_route_shadowed:
  "route w r \<noteq> CoordsHandler
   \<and> (verb r \<noteq> OtherVerb \<and> path r = ''/api/weather/coords'' \<and> \<not> express_static w (path r)
        \<and> decodeURIComponent w ''coords'' = Some ''coords''
      \<longrightarrow> route w r = CityHandler ''coords'' \<and> app w r = Some (weatherByCity w ''coords''))"
proof (rule conjI)
  show "route w r \<noteq> CoordsHandler"
  proof (cases "matchCoordsRoute (path r)")
    case True
    then have "matchCityRoute (path r) = Some (drop 13 (dropTrailingSlash (path r)))"
      by (rule matchCoordsRoute_matchCityRoute)
    then show ?thesis
      by (simp add: route_def split: option.splits)
  next
    case False
    then show ?thesis
      by (simp add: route_def split: option.splits)
  qed
next
  show "verb r \<noteq> OtherVerb \<and> path r = ''/api/weather/coords'' \<and> \<not> express_static w (path r)
        \<and> decodeURIComponent w ''coords'' = Some ''coords''
      \<longrightarrow> route w r = CityHandler ''coords'' \<and> app w r = Some (weatherByCity w ''coords'')"
  proof (rule impI)
    assume a: "verb r \<noteq> OtherVerb \<and> path r = ''/api/weather/coords''
        \<and> \<not> express_static w (path r) \<and> decodeURIComponent w ''coords'' = Some ''coords''"
    with matchCityRoute_coords have "route w r = CityHandler ''coords''"
      by (auto simp: route_def)
    then show "route w r = CityHandler ''coords'' \<and> app w r = Some (weatherByCity w ''coords'')"
      by (simp add: app_def)
  qed
qed

theorem coords_route_shadowed_witness:
  "verb (coordsRequest ''51.5'' ''-0.12'') \<noteq> OtherVerb
   \<and> path (coordsRequest ''51.5'' ''-0.12'') = ''/api/weather/coords''
   \<and> \<not> express_static stubWorld (path (coordsRequest ''51.5'' ''-0.12''))
   \<and> decodeURIComponent stubWorld ''coords'' = Some ''coords''
   \<and> route stubWorld (coordsRequest ''51.5'' ''-0.12'') = CityHandler ''coords''
   \<and> app stubWorld (coordsRequest ''51.5'' ''-0.12'') = Some (weatherByCity stubWorld ''coords'')"
proof -
  have h: "verb (coordsRequest ''51.5'' ''-0.12'') \<noteq> OtherVerb
     \<and> path (coordsRequest ''51.5'' ''-0.12'') = ''/api/weather/coords''
     \<and> \<not> express_static stubWorld (path (coordsRequest ''51.5'' ''-0.12''))
     \<and> decodeURIComponent stubWorld ''coords'' = Some ''coords''"
    by (simp add: coordsRequest_def stubWorld_def)
  with coords_route_shadowed [of stubWorld "coordsRequest ''51.5'' ''-0.12''"] show ?thesis
    by blast
qed

text \<open>
  Claim C1, at the request \<open>GET /api/weather/coords?lat=200&lon=10\<close>, whatever the
  upstream service does. The latitude is out of range, and the coordinate handler would
  answer 400 and request nothing. The application runs the city handler with the name
  \<open>coords\<close> instead: it requests the current conditions and the forecast of a city of
  that name, and its answer is not 400.
\<close>

theorem coords_request_reaches_city_handler:
  "app (stubWorld\<lparr>https_get := upstream\<rparr>) (coordsRequest ''200'' ''10'')
     = Some (weatherByCity (stubWorld\<lparr>https_get := upstream\<rparr>) ''coords'')
   \<and> snd (weatherByCity (stubWorld\<lparr>https_get := upstream\<rparr>) ''coords'')
     = [''https://api.openweathermap.org/data/2.5/weather?q=coords&appid=KEY&units=metric'',
        ''https://api.openweathermap.org/data/2.5/forecast?q=coords&appid=KEY&units=metric'']
   \<and> status (fst (weatherByCity (stubWorld\<lparr>https_get := upstream\<rparr>) ''coords'')) \<noteq> 400
   \<and> weatherByCoords (stubWorld\<lparr>https_get := upstream\<rparr>) (coordsRequest ''200'' ''10'')
     = (\<lparr>status = 400,
         body = ErrorBody ''Invalid coordinates. Latitude must be -90 to 90, longitude must be -180 to 180.''\<rparr>,
        [])"
proof -
  let ?w = "stubWorld\<lparr>https_get := upstream\<rparr>"
  have "route ?w (coordsRequest ''200'' ''10'') = CityHandler ''coords''"
    by (simp add: route_def coordsRequest_def stubWorld_def matchCityRoute_coords)
  then have 1: "app ?w (coordsRequest ''200'' ''10'') = Some (weatherByCity ?w ''coords'')"
    by (simp add: app_def)
  have t: "trim ''coords'' = ''coords''"
    by code_simp
  have v: "weatherByCity ?w ''coords''
           = fetchBoth ?w (currentWeatherUrl_city ?w ''coords'') (forecastUrl_city ?w ''coords'')"
    using weatherByCity_valid [of "''coords''" ?w] by (simp add: t)
  have e: "encodeURIComponent ''coords'' = ''coords''"
    by code_simp
  have u: "currentWeatherUrl_city ?w ''coords''
           = ''https://api.openweathermap.org/data/2.5/weather?q=coords&appid=KEY&units=metric''"
    "forecastUrl_city ?w ''coords''
           = ''https://api.openweathermap.org/data/2.5/forecast?q=coords&appid=KEY&units=metric''"
    by (simp_all add: currentWeatherUrl_city_def forecastUrl_city_def e stubWorld_def
        API_BASE_URL_def DEFAULT_UNITS_def)
  from v u have 2: "snd (weatherByCity ?w ''coords'')
     = [''https://api.openweathermap.org/data/2.5/weather?q=coords&appid=KEY&units=metric'',
        ''https://api.openweathermap.org/data/2.5/forecast?q=coords&appid=KEY&units=metric'']"
    by (simp add: fetchBoth_calls)
  from v fetchBoth_status [of ?w "currentWeatherUrl_city ?w ''coords''" "forecastUrl_city ?w ''coords''"]
  have 3: "status (fst (weatherByCity ?w ''coords'')) \<noteq> 400"
    by auto
  have i: "\<not> isValidCoordinate ''200'' ''10''"
    by code_simp
  then have 4: "weatherByCoords ?w (coordsRequest ''200'' ''10'')
     = (\<lparr>status = 400,
         body = ErrorBody ''Invalid coordinates. Latitude must be -90 to 90, longitude must be -180 to 180.''\<rparr>,
        [])"
    by (simp add: weatherByCoords_def coordsRequest_def)
  from 1 2 3 4 show ?thesis by blast
qed

section \<open>The search history\<close>

lemma strings_map_JStr: "strings (map JStr h) = Some h"
  by (induction h) simp_all

lemma strings_SomeD: "strings xs = Some h \<Longrightarrow> xs = map JStr h"
proof (induction xs arbitrary: h rule: strings.induct)
  case 1
  then show ?case by simp
next
  case (2 s xs)
  then show ?case by (auto split: option.splits)
qed simp_all

lemma historyOf_stored: "historyOf (stored h) = Some h"
  by (simp add: historyOf_def stored_def strings_map_JStr)

lemma historyOf_absent: "historyOf None = Some []"
  by (simp add: historyOf_def)

lemma historyOf_SomeD:
  "historyOf st = Some h \<Longrightarrow> getItemOrDefault st = Wellformed (JArr (map JStr h))"
  by (auto simp: historyOf_def split: item.splits json.splits dest: strings_SomeD)

lemma filterOut_strings:
  "filterOut city (map JStr h) = Inr (map JStr (remove_spec city h))"
  by (induction h) (simp_all add: remove_spec_def)

lemma renderHistory_stored: "renderHistory (stored h) = Inr (map JStr h)"
  by (simp add: renderHistory_def stored_def)


text \<open>
  On a storage that holds a list of names, \<open>saveCityToHistory\<close> and \<open>deleteCity\<close> store
  what \<open>add_spec\<close> and \<open>remove_spec\<close> make of the list, and neither throws.
\<close>

lemma saveCityToHistory_history:
  assumes "historyOf st = Some h"
  shows "saveCityToHistory city st = Inr (stored (add_spec city h))"
proof -
  let ?kept = "map JStr (remove_spec city h)"
  from assms have g: "getItemOrDefault st = Wellformed (JArr (map JStr h))"
    by (rule historyOf_SomeD)
  have "take MAX_HISTORY_ITEMS (map JStr (city # remove_spec city h))
        = map JStr (add_spec city h)"
    unfolding add_spec_def remove_spec_def by (rule take_map)
  then have e1: "take MAX_HISTORY_ITEMS (JStr city # ?kept) = map JStr (add_spec city h)"
    by simp
  have e2: "JStr city # ?kept = map JStr (add_spec city h)"
    if "\<not> MAX_HISTORY_ITEMS < Suc (length (remove_spec city h))"
    using that e1 by simp
  have r: "renderHistory (Some (Wellformed (JArr (map JStr (add_spec city h)))))
           = Inr (map JStr (add_spec city h))"
    using renderHistory_stored [of "add_spec city h"] by (simp add: stored_def)
  have n: "\<not> MAX_HISTORY_ITEMS < length (add_spec city h)"
    by (simp add: add_spec_def del: take_Cons_numeral)
  show ?thesis
  proof (cases "MAX_HISTORY_ITEMS < Suc (length (remove_spec city h))")
    case True
    then show ?thesis
      unfolding saveCityToHistory_def g
      by (simp add: filterOut_strings JSON_stringify_def e1 r stored_def
          del: take_Cons_numeral)
  next
    case False
    then show ?thesis
      unfolding saveCityToHistory_def g
      by (simp add: filterOut_strings JSON_stringify_def e2 n r stored_def
          del: take_Cons_numeral)
  qed
qed

lemma deleteCity_history:
  assumes "historyOf st = Some h"
  shows "deleteCity name st = (stored (remove_spec name h), None)"
proof -
  from assms have g: "getItemOrDefault st = Wellformed (JArr (map JStr h))"
    by (rule historyOf_SomeD)
  have r: "renderHistory (Some (Wellformed (JArr (map JStr (remove_spec name h)))))
           = Inr (map JStr (remove_spec name h))"
    using renderHistory_stored [of "remove_spec name h"] by (simp add: stored_def)
  show ?thesis
    unfolding deleteCity_def g
    by (simp add: filterOut_strings Let_def JSON_stringify_def r stored_def)
qed

lemma addAll_history:
  "historyOf st = Some h \<Longrightarrow>
   \<exists>st'. addAll names st = Inr st'
     \<and> historyOf st' = Some (foldl (\<lambda>h name. add_spec name h) h names)"
proof (induction names arbitrary: st h)
  case Nil
  then show ?case by simp
next
  case (Cons name names)
  from Cons.prems have "saveCityToHistory name st = Inr (stored (add_spec name h))"
    by (rule saveCityToHistory_history)
  moreover from Cons.IH [OF historyOf_stored [of "add_spec name h"]]
  obtain st' where "addAll names (stored (add_spec name h)) = Inr st'"
    and "historyOf st' = Some (foldl (\<lambda>h name. add_spec name h) (add_spec name h) names)"
    by blast
  ultimately show ?case by simp
qed

text \<open>
  Conversely, \<open>saveCityToHistory\<close> returns only on a storage that holds a list of names:
  on any other it throws, before anything is stored.
\<close>

lemma filterOut_InrD: "filterOut city xs = Inr kept \<Longrightarrow> \<exists>h. xs = map JStr h"
proof (induction xs arbitrary: kept)
  case Nil
  then show ?case by simp
next
  case (Cons x xs)
  from Cons.prems obtain s where x: "x = JStr s"
    by (cases x) simp_all
  from Cons.prems x obtain k where "filterOut city xs = Inr k"
    by (auto split: sum.splits)
  with Cons.IH obtain h where "xs = map JStr h" by blast
  with x have "x # xs = map JStr (s # h)" by simp
  then show ?case by (rule exI)
qed

lemma saveCityToHistory_InrD:
  assumes "saveCityToHistory city st = Inr st'"
  shows "\<exists>h. historyOf st = Some h"
proof -
  from assms obtain history where p: "JSON_parse_item (getItemOrDefault st) = Inr history"
    by (auto simp: saveCityToHistory_def split: sum.splits)
  with assms obtain kept where k: "filter_history city history = Inr kept"
    by (auto simp: saveCityToHistory_def split: sum.splits)
  then obtain xs where a: "history = JArr xs" and f: "filterOut city xs = Inr kept"
    by (cases history) simp_all
  from f obtain h where "xs = map JStr h"
    by (blast dest: filterOut_InrD)
  with p a have "getItemOrDefault st = Wellformed (JArr (map JStr h))"
    by (cases "getItemOrDefault st") simp_all
  then have "historyOf st = Some h"
    by (simp add: historyOf_def strings_map_JStr)
  then show ?thesis by blast
qed

subsection \<open>The list after \<open>add\<close> and \<open>remove\<close>\<close>

lemma take_take_append: "n \<le> m \<Longrightarrow> take n (take m a @ u) = take n (a @ u)"
  by (cases "length a \<le> m") simp_all

lemma filter_fresh:
  "toLowerCase x \<notin> toLowerCase ` set xs \<Longrightarrow>
   filter (\<lambda>e. toLowerCase e \<noteq> toLowerCase x) xs = xs"
  by (induction xs) auto

lemma subseq_take: "subseq (take n xs) xs"
  by (rule prefix_imp_subseq) (rule take_is_prefix)

lemma add_spec_front: "add_spec name h \<noteq> [] \<and> hd (add_spec name h) = name"
  by (simp add: add_spec_def MAX_HISTORY_ITEMS_def)

lemma add_spec_once:
  "filter (\<lambda>e. toLowerCase e = toLowerCase name) (add_spec name h) = [name]"
proof -
  let ?keep = "\<lambda>e. toLowerCase e \<noteq> toLowerCase name"
  have "filter (\<lambda>e. toLowerCase e = toLowerCase name) (take 9 (filter ?keep h)) = []"
    by (auto simp: filter_empty_conv dest: in_set_takeD)
  then show ?thesis
    by (simp add: add_spec_def MAX_HISTORY_ITEMS_def)
qed

lemma add_spec_order: "subseq (tl (add_spec name h)) h"
proof -
  have "subseq (take 9 (remove_spec name h)) (remove_spec name h)"
    by (rule subseq_take)
  also have "subseq (remove_spec name h) h"
    by (simp add: remove_spec_def)
  finally show ?thesis
    by (simp add: add_spec_def remove_spec_def MAX_HISTORY_ITEMS_def)
qed

lemma add_spec_idem: "add_spec name (add_spec name h) = add_spec name h"
proof -
  let ?keep = "\<lambda>e. toLowerCase e \<noteq> toLowerCase name"
  have "filter ?keep (take 9 (filter ?keep h)) = take 9 (filter ?keep h)"
    by (rule filter_True) (auto dest: in_set_takeD)
  then show ?thesis
    by (simp add: add_spec_def MAX_HISTORY_ITEMS_def)
qed

lemma remove_spec_order: "subseq (remove_spec name h) h"
  by (simp add: remove_spec_def)

lemma remove_spec_gone: "toLowerCase name \<notin> toLowerCase ` set (remove_spec name h)"
  by (auto simp: remove_spec_def)

lemma HistoryList_add_spec: "HistoryList h \<Longrightarrow> HistoryList (add_spec name h)"
proof -
  assume "HistoryList h"
  then have "distinct (map toLowerCase h)"
    by (simp add: HistoryList_def)
  then have "distinct (map toLowerCase (name # remove_spec name h))"
    by (auto simp: remove_spec_def distinct_map_filter)
  then have "distinct (take MAX_HISTORY_ITEMS (map toLowerCase (name # remove_spec name h)))"
    by (rule distinct_take)
  then show ?thesis
    by (simp add: HistoryList_def add_spec_def remove_spec_def take_map
        del: take_Cons_numeral list.map)
qed

lemma HistoryList_remove_spec: "HistoryList h \<Longrightarrow> HistoryList (remove_spec name h)"
proof -
  assume h: "HistoryList h"
  have "length (remove_spec name h) \<le> length h"
    by (simp add: remove_spec_def)
  with h have "length (remove_spec name h) \<le> MAX_HISTORY_ITEMS"
    by (simp add: HistoryList_def)
  moreover from h have "distinct (map toLowerCase (remove_spec name h))"
    by (simp add: HistoryList_def remove_spec_def distinct_map_filter)
  ultimately show ?thesis
    by (simp add: HistoryList_def)
qed

text \<open>
  Adding a name that differs, without regard to case, from the names added before it
  puts it in front of them: after names \<open>xs\<close> and then \<open>x\<close>, the list starts with \<open>x\<close>
  and the reverse of \<open>xs\<close>, cut at ten entries.
\<close>

lemma add_spec_step:
  assumes fresh: "toLowerCase x \<notin> toLowerCase ` set xs"
  shows "\<exists>u. add_spec x (take MAX_HISTORY_ITEMS (rev xs @ t))
             = take MAX_HISTORY_ITEMS (rev (xs @ [x]) @ u)"
proof -
  let ?keep = "\<lambda>e. toLowerCase e \<noteq> toLowerCase x"
  let ?u = "filter ?keep (take (10 - length xs) t)"
  from fresh have "toLowerCase x \<notin> toLowerCase ` set (take 10 (rev xs))"
    by (auto dest: in_set_takeD)
  then have "filter ?keep (take 10 (rev xs)) = take 10 (rev xs)"
    by (rule filter_fresh)
  then have "filter ?keep (take 10 (rev xs @ t)) = take 10 (rev xs) @ ?u"
    by simp
  then have "add_spec x (take 10 (rev xs @ t)) = x # take 9 (take 10 (rev xs) @ ?u)"
    by (simp add: add_spec_def MAX_HISTORY_ITEMS_def)
  also have "take 9 (take 10 (rev xs) @ ?u) = take 9 (rev xs @ ?u)"
    by (rule take_take_append) simp
  finally have "add_spec x (take 10 (rev xs @ t)) = take 10 (rev (xs @ [x]) @ ?u)"
    by simp
  then show ?thesis
    unfolding MAX_HISTORY_ITEMS_def by (rule exI)
qed

lemma foldl_add_spec_prefix:
  assumes "names \<noteq> []" and "distinct (map toLowerCase names)"
  shows "\<exists>t. foldl (\<lambda>h name. add_spec name h) h names
             = take MAX_HISTORY_ITEMS (rev names @ t)"
  using assms
proof (induction names rule: rev_nonempty_induct)
  case (single x)
  have "foldl (\<lambda>h name. add_spec name h) h [x]
        = take MAX_HISTORY_ITEMS (rev [x] @ remove_spec x h)"
    by (simp add: add_spec_def remove_spec_def)
  then show ?case by (rule exI)
next
  case (snoc x xs)
  from snoc.prems have d: "distinct (map toLowerCase xs)"
    and fresh: "toLowerCase x \<notin> toLowerCase ` set xs"
    by simp_all
  from snoc.IH [OF d] obtain t
    where t: "foldl (\<lambda>h name. add_spec name h) h xs = take MAX_HISTORY_ITEMS (rev xs @ t)"
    by blast
  from add_spec_step [OF fresh, of t] obtain u
    where "add_spec x (take MAX_HISTORY_ITEMS (rev xs @ t))
           = take MAX_HISTORY_ITEMS (rev (xs @ [x]) @ u)"
    by blast
  with t have "foldl (\<lambda>h name. add_spec name h) h (xs @ [x])
               = take MAX_HISTORY_ITEMS (rev (xs @ [x]) @ u)"
    by simp
  then show ?case by (rule exI)
qed

lemma foldl_add_spec_full:
  assumes "MAX_HISTORY_ITEMS \<le> length names" and "distinct (map toLowerCase names)"
  shows "foldl (\<lambda>h name. add_spec name h) h names = take MAX_HISTORY_ITEMS (rev names)"
proof -
  from assms(1) have "names \<noteq> []"
    by (auto simp: MAX_HISTORY_ITEMS_def)
  from foldl_add_spec_prefix [OF this assms(2), of h] obtain t
    where "foldl (\<lambda>h name. add_spec name h) h names = take MAX_HISTORY_ITEMS (rev names @ t)"
    by blast
  with assms(1) show ?thesis by simp
qed

subsection \<open>Reading the history\<close>




subsection \<open>The invariant\<close>

text \<open>
  Claim C7. Let the storage hold a list \<open>h\<close> of at most ten names, no two equal without
  regard to case. Then \<open>saveCityToHistory\<close> stores such a list again, with the new name
  in front and behind it entries of \<open>h\<close> in the order they had; \<open>deleteCity\<close> stores
  such a list again, made of entries of \<open>h\<close> in the order they had; and adding eleven
  names, no two equal without regard to case, one after the other stores the last ten of
  them, the most recent first.
\<close>

theorem history_invariant_preserved:
  assumes "historyOf st = Some h" and "HistoryList h"
  shows "(\<exists>st' h'. saveCityToHistory name st = Inr st' \<and> historyOf st' = Some h'
            \<and> HistoryList h' \<and> h' \<noteq> [] \<and> hd h' = name \<and> subseq (tl h') h)
       \<and> (\<exists>h'. historyOf (fst (deleteCity name st)) = Some h'
            \<and> HistoryList h' \<and> subseq h' h)
       \<and> (length names = Suc MAX_HISTORY_ITEMS \<and> distinct (map toLowerCase names) \<longrightarrow>
            (\<exists>st'. addAll names st = Inr st' \<and> historyOf st' = Some (rev (drop 1 names))))"
proof (intro conjI impI)
  from assms(1) have "saveCityToHistory name st = Inr (stored (add_spec name h))"
    by (rule saveCityToHistory_history)
  moreover have "historyOf (stored (add_spec name h)) = Some (add_spec name h)"
    by (rule historyOf_stored)
  moreover from assms(2) have "HistoryList (add_spec name h)"
    by (rule HistoryList_add_spec)
  ultimately show "\<exists>st' h'. saveCityToHistory name st = Inr st' \<and> historyOf st' = Some h'
            \<and> HistoryList h' \<and> h' \<noteq> [] \<and> hd h' = name \<and> subseq (tl h') h"
    using add_spec_front [of name h] add_spec_order [of name h] by blast
next
  from assms(1) have "fst (deleteCity name st) = stored (remove_spec name h)"
    by (simp add: deleteCity_history)
  then have "historyOf (fst (deleteCity name st)) = Some (remove_spec name h)"
    by (simp add: historyOf_stored)
  moreover from assms(2) have "HistoryList (remove_spec name h)"
    by (rule HistoryList_remove_spec)
  ultimately show "\<exists>h'. historyOf (fst (deleteCity name st)) = Some h'
            \<and> HistoryList h' \<and> subseq h' h"
    using remove_spec_order [of name h] by blast
next
  assume n: "length names = Suc MAX_HISTORY_ITEMS \<and> distinct (map toLowerCase names)"
  from addAll_history [OF assms(1), of names] obtain st'
    where a: "addAll names st = Inr st'"
      and b: "historyOf st' = Some (foldl (\<lambda>h name. add_spec name h) h names)"
    by blast
  from n have "foldl (\<lambda>h name. add_spec name h) h names = take MAX_HISTORY_ITEMS (rev names)"
    by (intro foldl_add_spec_full) simp_all
  also from n have "\<dots> = rev (drop 1 names)"
    by (simp add: take_rev)
  finally show "\<exists>st'. addAll names st = Inr st' \<and> historyOf st' = Some (rev (drop 1 names))"
    using a b by simp
qed

theorem history_invariant_preserved_witness:
  "historyOf (stored [''London'', ''Paris'']) = Some [''London'', ''Paris'']
   \<and> HistoryList [''London'', ''Paris'']
   \<and> (\<exists>st' h'. saveCityToHistory ''PARIS'' (stored [''London'', ''Paris'']) = Inr st'
         \<and> historyOf st' = Some h' \<and> HistoryList h' \<and> hd h' = ''PARIS'')
   \<and> (\<exists>st'. addAll [''a'', ''b'', ''c'', ''d'', ''e'', ''f'', ''g'', ''h'', ''i'', ''j'', ''k'']
               (stored [''London'', ''Paris'']) = Inr st'
         \<and> historyOf st' = Some [''k'', ''j'', ''i'', ''h'', ''g'', ''f'', ''e'', ''d'', ''c'', ''b''])"
proof -
  let ?names = "[''a'', ''b'', ''c'', ''d'', ''e'', ''f'', ''g'', ''h'', ''i'', ''j'', ''k'']"
  have h: "historyOf (stored [''London'', ''Paris'']) = Some [''London'', ''Paris'']"
    by (rule historyOf_stored)
  have i: "HistoryList [''London'', ''Paris'']"
    by code_simp
  have n: "length ?names = Suc MAX_HISTORY_ITEMS \<and> distinct (map toLowerCase ?names)"
    by code_simp
  from history_invariant_preserved [OF h i, of "''PARIS''" ?names] n h i
  show ?thesis
    by (simp del: distinct.simps) blast
qed

subsection \<open>Adding a name again\<close>

text \<open>
  Claim C8. On every storage that holds a list of names, adding a name succeeds and
  adding the same name again changes nothing: the storage after the second call is the
  storage after the first. In it the name is the first entry, and it is the only entry
  equal to the name without regard to case.
\<close>

theorem saveCityToHistory_idempotent:
  assumes "historyOf st = Some h"
  shows "\<exists>st1 h1. saveCityToHistory name st = Inr st1
           \<and> saveCityToHistory name st1 = Inr st1
           \<and> historyOf st1 = Some h1 \<and> h1 \<noteq> [] \<and> hd h1 = name
           \<and> filter (\<lambda>e. toLowerCase e = toLowerCase name) h1 = [name]"
proof -
  let ?st1 = "stored (add_spec name h)"
  from assms have 1: "saveCityToHistory name st = Inr ?st1"
    by (rule saveCityToHistory_history)
  have h1: "historyOf ?st1 = Some (add_spec name h)"
    by (rule historyOf_stored)
  then have "saveCityToHistory name ?st1 = Inr (stored (add_spec name (add_spec name h)))"
    by (rule saveCityToHistory_history)
  then have 2: "saveCityToHistory name ?st1 = Inr ?st1"
    by (simp add: add_spec_idem)
  from 1 2 h1 add_spec_front [of name h] add_spec_once [of name h] show ?thesis
    by blast
qed

theorem saveCityToHistory_idempotent_witness:
  "historyOf (stored [''London'', ''paris'']) = Some [''London'', ''paris'']
   \<and> (\<exists>st1 h1. saveCityToHistory ''Paris'' (stored [''London'', ''paris'']) = Inr st1
         \<and> saveCityToHistory ''Paris'' st1 = Inr st1
         \<and> historyOf st1 = Some h1 \<and> hd h1 = ''Paris''
         \<and> filter (\<lambda>e. toLowerCase e = toLowerCase ''Paris'') h1 = [''Paris''])"
proof -
  have h: "historyOf (stored [''London'', ''paris'']) = Some [''London'', ''paris'']"
    by (rule historyOf_stored)
  from saveCityToHistory_idempotent [OF h, of "''Paris''"] h show ?thesis
    by blast
qed

subsection \<open>Names that differ in case only\<close>

text \<open>
  Claim C9. Let \<open>a\<close> and \<open>b\<close> be equal without regard to case. On every storage that
  holds a list of names, adding \<open>a\<close> and then \<open>b\<close> succeeds, and the list stored at the
  end has exactly one entry equal to them without regard to case: it is \<open>b\<close>, the
  casing added last, and it is the first entry.
\<close>

theorem saveCityToHistory_keeps_last_casing:
  assumes "toLowerCase a = toLowerCase b" and "historyOf st = Some h"
  shows "\<exists>st1 st2 h2. saveCityToHistory a st = Inr st1 \<and> saveCityToHistory b st1 = Inr st2
           \<and> historyOf st2 = Some h2
           \<and> filter (\<lambda>e. toLowerCase e = toLowerCase b) h2 = [b]
           \<and> hd h2 = b"
proof -
  let ?st1 = "stored (add_spec a h)"
  let ?st2 = "stored (add_spec b (add_spec a h))"
  from assms(2) have 1: "saveCityToHistory a st = Inr ?st1"
    by (rule saveCityToHistory_history)
  have "historyOf ?st1 = Some (add_spec a h)"
    by (rule historyOf_stored)
  then have 2: "saveCityToHistory b ?st1 = Inr ?st2"
    by (rule saveCityToHistory_history)
  have 3: "historyOf ?st2 = Some (add_spec b (add_spec a h))"
    by (rule historyOf_stored)
  from 1 2 3 add_spec_once [of b "add_spec a h"] add_spec_front [of b "add_spec a h"]
  show ?thesis by blast
qed

theorem saveCityToHistory_keeps_last_casing_witness:
  "toLowerCase ''Paris'' = toLowerCase ''PARIS''
   \<and> historyOf None = Some []
   \<and> (\<exists>st1 st2. saveCityToHistory ''Paris'' None = Inr st1
         \<and> saveCityToHistory ''PARIS'' st1 = Inr st2
         \<and> historyOf st2 = Some [''PARIS''])"
proof -
  have e: "toLowerCase ''Paris'' = toLowerCase ''PARIS''"
    by code_simp
  have h: "historyOf None = Some []"
    by (rule historyOf_absent)
  from saveCityToHistory_keeps_last_casing [OF e h] obtain st1 st2 h2
    where s: "saveCityToHistory ''Paris'' None = Inr st1" "saveCityToHistory ''PARIS'' st1 = Inr st2"
      and h2: "historyOf st2 = Some h2"
    by blast
  have "saveCityToHistory ''Paris'' None = Inr (stored [''Paris''])"
    by code_simp
  with s have "st1 = stored [''Paris'']" by simp
  moreover have "saveCityToHistory ''PARIS'' (stored [''Paris'']) = Inr (stored [''PARIS''])"
    by code_simp
  ultimately have "st2 = stored [''PARIS'']"
    using s by simp
  with s e h show ?thesis
    by (simp add: historyOf_stored)
qed

end
